theory Spec2Isabelle
  imports Complex_Main "HOL-Library.Monad_Syntax"
begin

section \<open>JavaScript values used by the invoice page\<close>

text \<open>
  The invoice logic lives in \<^verbatim>\<open>src/frontend/src/pages/Invoices.jsx\<close>. Numbers are
  modelled by exact rationals (the finite doubles without rounding); \<open>NaN\<close> appears
  only as the result \<open>None\<close> of a parse. The non-finite doubles have no exact value and
  are outside the model: a number input and a JSON payload cannot carry them.
  Strings are lists of 8-bit characters, read as ASCII text.
\<close>

text \<open>
  A numeric field as the form holds it: a number (from the API or the initial form), the
  text of an input element, or nothing (\<^verbatim>\<open>undefined\<close>).
\<close>

datatype raw_number = Absent | Number rat | Text string

text \<open>A string field of an API record: \<^verbatim>\<open>undefined\<close>, \<^verbatim>\<open>null\<close> or a string.\<close>

datatype raw_string = Undefined | Null | Str string

definition truthy_str :: "raw_string \<Rightarrow> bool" where
  "truthy_str v = (case v of Str s \<Rightarrow> s \<noteq> [] | _ \<Rightarrow> False)"

text \<open>The ASCII members of the ECMAScript classes WhiteSpace and LineTerminator.\<close>

definition is_space :: "char \<Rightarrow> bool" where
  "is_space c = (c \<in> set [CHR 0x20, CHR 0x09, CHR 0x0A, CHR 0x0B, CHR 0x0C, CHR 0x0D])"

text \<open>\<^verbatim>\<open>String.prototype.trim\<close>.\<close>

definition trim :: "string \<Rightarrow> string" where
  "trim s = rev (dropWhile is_space (rev (dropWhile is_space s)))"

definition digit_val :: "char \<Rightarrow> nat option" where
  "digit_val = map_of
     [(CHR ''0'', 0), (CHR ''1'', 1), (CHR ''2'', 2), (CHR ''3'', 3), (CHR ''4'', 4),
      (CHR ''5'', 5), (CHR ''6'', 6), (CHR ''7'', 7), (CHR ''8'', 8), (CHR ''9'', 9)]"

definition is_digit :: "char \<Rightarrow> bool" where
  "is_digit c = (digit_val c \<noteq> None)"

text \<open>The value of a run of decimal digits, most significant first.\<close>

definition digits_val :: "string \<Rightarrow> nat" where
  "digits_val ds = foldl (\<lambda>a c. 10 * a + (case digit_val c of Some d \<Rightarrow> d | None \<Rightarrow> 0)) 0 ds"

text \<open>An optional sign in front of a numeral: the sign and the rest of the text.\<close>

definition read_sign :: "string \<Rightarrow> int \<times> string" where
  "read_sign s =
     (case s of
        [] \<Rightarrow> (1, s)
      | c # r \<Rightarrow> if c = CHR ''-'' then (- 1, r) else if c = CHR ''+'' then (1, r) else (1, s))"

text \<open>
  The exponent part \<^verbatim>\<open>e\<close>/\<^verbatim>\<open>E\<close>, sign, digits. An exponent marker that is not
  followed by digits does not belong to the numeral, so the exponent is 0.
\<close>

definition read_exponent :: "string \<Rightarrow> int" where
  "read_exponent s =
     (case s of
        [] \<Rightarrow> 0
      | c # r \<Rightarrow>
          if c = CHR ''e'' \<or> c = CHR ''E'' then
            (let (sg, r') = read_sign r; ds = takeWhile is_digit r'
             in if ds = [] then 0 else sg * int (digits_val ds))
          else 0)"

definition pow10 :: "int \<Rightarrow> rat" where
  "pow10 e = (if 0 \<le> e then 10 ^ nat e else 1 / 10 ^ nat (- e))"

text \<open>
  \<^verbatim>\<open>parseFloat\<close> on a string: leading white space is skipped and the longest prefix
  that is a decimal literal (sign, digits, fraction, exponent) is read; the rest of the
  text is ignored. \<open>None\<close> is \<open>NaN\<close>: no such prefix exists. The literal
  \<^verbatim>\<open>Infinity\<close> is the one decimal literal without an exact value and is not read.
\<close>

definition parse_float :: "string \<Rightarrow> rat option" where
  "parse_float s =
     (let (sg, u) = read_sign (dropWhile is_space s);
          ip = takeWhile is_digit u;
          v = dropWhile is_digit u;
          (fp, w) = (case v of
                       [] \<Rightarrow> ([], v)
                     | c # r \<Rightarrow> if c = CHR ''.''
                                then (takeWhile is_digit r, dropWhile is_digit r)
                                else ([], v))
      in if ip = [] \<and> fp = [] then None
         else Some (of_int sg
                    * (of_nat (digits_val ip) + of_nat (digits_val fp) / 10 ^ length fp)
                    * pow10 (read_exponent w)))"

text \<open>
  \<^verbatim>\<open>parseFloat(v)\<close> on a field: the argument is first converted to a string, so a
  number parses to itself and \<^verbatim>\<open>undefined\<close> is the text \<^verbatim>\<open>"undefined"\<close>.
\<close>

definition parseFloat :: "raw_number \<Rightarrow> rat option" where
  "parseFloat v =
     (case v of
        Absent \<Rightarrow> parse_float ''undefined''
      | Number r \<Rightarrow> Some r
      | Text s \<Rightarrow> parse_float s)"

text \<open>\<^verbatim>\<open>parseFloat(v) || 0\<close>: \<open>NaN\<close> and 0 are falsy.\<close>

definition parseFloat_or_0 :: "raw_number \<Rightarrow> rat" where
  "parseFloat_or_0 v = (case parseFloat v of None \<Rightarrow> 0 | Some r \<Rightarrow> if r = 0 then 0 else r)"

section \<open>Line items and the totals calculator\<close>

text \<open>A line item of the edit buffer; \<open>item_id\<close> is present when the item is persisted.\<close>

record item =
  item_id :: "nat option"
  description :: raw_string
  quantity :: raw_number
  unit_price :: raw_number

text \<open>An item after \<^verbatim>\<open>normalizeItems\<close>.\<close>

record norm_item =
  n_id :: "nat option"
  n_description :: string
  n_quantity :: rat
  n_unit_price :: rat

text \<open>\<^verbatim>\<open>item.description?.trim() || ''\<close>\<close>

definition trimmed_description :: "raw_string \<Rightarrow> string" where
  "trimmed_description d = (case d of Str s \<Rightarrow> trim s | _ \<Rightarrow> [])"

definition normalize_item :: "item \<Rightarrow> norm_item" where
  "normalize_item it =
     \<lparr> n_id = item_id it,
       n_description = trimmed_description (description it),
       n_quantity = parseFloat_or_0 (quantity it),
       n_unit_price = parseFloat_or_0 (unit_price it) \<rparr>"

definition normalizeItems :: "item list \<Rightarrow> norm_item list" where
  "normalizeItems its = filter (\<lambda>it. n_description it \<noteq> []) (map normalize_item its)"

text \<open>The edit buffer of the invoice dialog (the state \<^verbatim>\<open>form\<close>).\<close>

record invoice_form =
  issue_date :: string
  due_date :: string
  payment_terms :: string
  tax_rate :: raw_number
  discount_percent :: raw_number
  form_description :: string
  form_notes :: string
  project_id :: string
  items :: "item list"
  client_id :: string

record totals =
  subtotal :: rat
  discount :: rat
  tax :: rat
  total :: rat

text \<open>\<^verbatim>\<open>calculateFormTotals\<close>: the memoised value, a function of the form.\<close>

definition calculateFormTotals :: "invoice_form \<Rightarrow> totals" where
  "calculateFormTotals form =
     (let its = normalizeItems (items form);
          subtotal = foldl (\<lambda>sum it. sum + n_quantity it * n_unit_price it) 0 its;
          discount = subtotal * (parseFloat_or_0 (discount_percent form) / 100);
          taxable = subtotal - discount;
          tax = taxable * (parseFloat_or_0 (tax_rate form) / 100);
          total = taxable + tax
      in \<lparr> subtotal = subtotal, discount = discount, tax = tax, total = total \<rparr>)"

section \<open>Requests and errors\<close>

record item_payload =
  ip_description :: string
  ip_quantity :: rat
  ip_unit_price :: rat

text \<open>The object \<^verbatim>\<open>data\<close> that \<^verbatim>\<open>handleSubmit\<close> builds from the form.\<close>

record invoice_data =
  d_issue_date :: "string option"
  d_due_date :: "string option"
  d_payment_terms :: string
  d_tax_rate :: rat
  d_discount_percent :: rat
  d_description :: string
  d_notes :: string
  d_client_id :: "int option"
  d_project_id :: "int option option"
  d_items :: "norm_item list"

record update_payload =
  u_issue_date :: "string option"
  u_due_date :: "string option"
  u_payment_terms :: string
  u_tax_rate :: rat
  u_discount_percent :: rat
  u_description :: string
  u_notes :: string

record payment_payload =
  pp_amount :: rat
  pp_payment_date :: "string option"
  pp_notes :: "string option"

text \<open>The requests the page sends, each with the identifiers of its URL and its body.\<close>

datatype api_call =
    Get_invoices
  | Post_invoice invoice_data
  | Put_invoice nat update_payload
  | Put_item nat nat item_payload
  | Post_item nat item_payload
  | Delete_item nat nat
  | Post_payment nat payment_payload

text \<open>
  What a handler can throw: the \<^verbatim>\<open>RangeError\<close> of \<^verbatim>\<open>toISOString\<close>, and the error
  of a rejected request, which names the request.
\<close>

datatype js_error = RangeError | ApiError api_call

section \<open>Dates\<close>

text \<open>
  A \<^verbatim>\<open>Date\<close> object holds a time value: milliseconds since the epoch in UTC, or
  \<open>NaN\<close> (an invalid date), here \<open>None\<close>. The local time zone of the browser is a
  parameter \<open>tz\<close>: the minutes that local time is ahead of UTC, taken as constant
  (a zone without daylight saving, or dates away from a change).
\<close>

type_synonym date = "int option"

definition msPerDay :: int where
  "msPerDay = 86400000"

definition LocalTime :: "int \<Rightarrow> int \<Rightarrow> int" where
  "LocalTime tz t = t + tz * 60000"

definition UTC_of_local :: "int \<Rightarrow> int \<Rightarrow> int" where
  "UTC_of_local tz t = t - tz * 60000"

definition TimeClip :: "int \<Rightarrow> date" where
  "TimeClip t = (if \<bar>t\<bar> > 8640000000000000 then None else Some t)"

text \<open>
  The day number (days since 1970-01-01) of a date of the proleptic Gregorian calendar,
  months counted from 1, and its inverse.
\<close>

definition days_from_civil :: "int \<Rightarrow> int \<Rightarrow> int \<Rightarrow> int" where
  "days_from_civil y m d =
     (let y' = (if m \<le> 2 then y - 1 else y);
          era = y' div 400;
          yoe = y' - era * 400;
          doy = (153 * (if m > 2 then m - 3 else m + 9) + 2) div 5 + d - 1;
          doe = yoe * 365 + yoe div 4 - yoe div 100 + doy
      in era * 146097 + doe - 719468)"

definition civil_from_days :: "int \<Rightarrow> int \<times> int \<times> int" where
  "civil_from_days z0 =
     (let z = z0 + 719468;
          era = z div 146097;
          doe = z - era * 146097;
          yoe = (doe - doe div 1460 + doe div 36524 - doe div 146096) div 365;
          doy = doe - (365 * yoe + yoe div 4 - yoe div 100);
          mp = (5 * doy + 2) div 153;
          d = doy - (153 * mp + 2) div 5 + 1;
          m = (if mp < 10 then mp + 3 else mp - 9);
          y = yoe + era * 400
      in (if m \<le> 2 then y + 1 else y, m, d))"

definition is_leap :: "int \<Rightarrow> bool" where
  "is_leap y = (y mod 4 = 0 \<and> (y mod 100 \<noteq> 0 \<or> y mod 400 = 0))"

definition days_in_month :: "int \<Rightarrow> int \<Rightarrow> int" where
  "days_in_month y m =
     (if m = 2 then (if is_leap y then 29 else 28)
      else if m = 4 \<or> m = 6 \<or> m = 9 \<or> m = 11 then 30 else 31)"

text \<open>\<^verbatim>\<open>MakeDay(year, month, date)\<close> of ECMAScript, months counted from 0.\<close>

definition MakeDay :: "int \<Rightarrow> int \<Rightarrow> int \<Rightarrow> int" where
  "MakeDay year month dt =
     days_from_civil (year + month div 12) (month mod 12 + 1) 1 + dt - 1"

definition MakeDate :: "int \<Rightarrow> int \<Rightarrow> int" where
  "MakeDate day time = day * msPerDay + time"

text \<open>\<^verbatim>\<open>getDate()\<close>: the day of the month in local time; \<open>NaN\<close> for an invalid date.\<close>

definition getDate :: "int \<Rightarrow> date \<Rightarrow> int option" where
  "getDate tz dt =
     (case dt of
        None \<Rightarrow> None
      | Some t \<Rightarrow> (case civil_from_days (LocalTime tz t div msPerDay) of (y, m, d) \<Rightarrow> Some d))"

text \<open>
  \<^verbatim>\<open>setDate(n)\<close>: the day of the month of the local date becomes \<open>n\<close>, which may lie
  outside the month; the local time of day is kept. The date after the call.
\<close>

definition setDate :: "int \<Rightarrow> date \<Rightarrow> int option \<Rightarrow> date" where
  "setDate tz dt n =
     (case (dt, n) of
        (Some t, Some k) \<Rightarrow>
          (case civil_from_days (LocalTime tz t div msPerDay) of
             (y, m, d) \<Rightarrow>
               TimeClip (UTC_of_local tz
                 (MakeDate (MakeDay y (m - 1) k) (LocalTime tz t mod msPerDay))))
      | _ \<Rightarrow> None)"

definition digit_char :: "int \<Rightarrow> char" where
  "digit_char d = ''0123456789'' ! nat d"

definition pad2 :: "int \<Rightarrow> string" where
  "pad2 k = [digit_char (k div 10 mod 10), digit_char (k mod 10)]"

definition pad3 :: "int \<Rightarrow> string" where
  "pad3 k = digit_char (k div 100 mod 10) # pad2 k"

definition pad4 :: "int \<Rightarrow> string" where
  "pad4 k = digit_char (k div 1000 mod 10) # pad3 k"

definition pad6 :: "int \<Rightarrow> string" where
  "pad6 k = pad2 (k div 10000) @ pad4 k"

text \<open>
  \<^verbatim>\<open>toISOString()\<close>: the UTC date and time; a year outside 0..9999 is written with a
  sign and six digits. An invalid date raises \<^verbatim>\<open>RangeError\<close>.
\<close>

definition iso_string :: "int \<Rightarrow> string" where
  "iso_string t =
     (case civil_from_days (t div msPerDay) of
        (y, m, d) \<Rightarrow>
          (let ms = t mod msPerDay
           in (if 0 \<le> y \<and> y \<le> 9999 then pad4 y
               else (if y < 0 then CHR ''-'' else CHR ''+'') # pad6 \<bar>y\<bar>)
              @ ''-'' @ pad2 m @ ''-'' @ pad2 d
              @ ''T'' @ pad2 (ms div 3600000) @ '':'' @ pad2 (ms div 60000 mod 60)
              @ '':'' @ pad2 (ms div 1000 mod 60) @ ''.'' @ pad3 (ms mod 1000) @ ''Z''))"

definition toISOString :: "date \<Rightarrow> js_error + string" where
  "toISOString dt = (case dt of None \<Rightarrow> Inl RangeError | Some t \<Rightarrow> Inr (iso_string t))"

text \<open>Exactly \<open>n\<close> decimal digits at the head of a text: their value and the rest.\<close>

definition read_digits :: "nat \<Rightarrow> string \<Rightarrow> (int \<times> string) option" where
  "read_digits n s =
     (let ds = take n s
      in if length ds = n \<and> list_all is_digit ds then Some (int (digits_val ds), drop n s)
         else None)"

definition expect :: "char \<Rightarrow> string \<Rightarrow> string option" where
  "expect c s = (case s of [] \<Rightarrow> None | x # r \<Rightarrow> if x = c then Some r else None)"

text \<open>
  The time of day \<^verbatim>\<open>HH:mm\<close>, \<^verbatim>\<open>HH:mm:ss\<close> or \<^verbatim>\<open>HH:mm:ss.sss\<close> in
  milliseconds, and the rest of the text.
\<close>

definition read_time :: "string \<Rightarrow> (int \<times> string) option" where
  "read_time s =
     do {
       (h, s1) \<leftarrow> read_digits 2 s;
       s2 \<leftarrow> expect CHR '':'' s1;
       (mi, s3) \<leftarrow> read_digits 2 s2;
       (sec, s4) \<leftarrow> (case expect CHR '':'' s3 of
                        None \<Rightarrow> Some (0, s3)
                      | Some r \<Rightarrow> read_digits 2 r);
       (ms, s5) \<leftarrow> (case expect CHR ''.'' s4 of
                       None \<Rightarrow> Some (0, s4)
                     | Some r \<Rightarrow> read_digits 3 r);
       if (if h = 24 then mi = 0 \<and> sec = 0 \<and> ms = 0 else h \<le> 23 \<and> mi \<le> 59 \<and> sec \<le> 59)
       then Some (h * 3600000 + mi * 60000 + sec * 1000 + ms, s5)
       else None
     }"

text \<open>
  The UTC offset that ends a date-time string, in minutes: \<^verbatim>\<open>Z\<close>, \<^verbatim>\<open>+HH:mm\<close>,
  \<^verbatim>\<open>-HH:mm\<close>, or nothing, and then the time is local.
\<close>

definition read_offset :: "int \<Rightarrow> string \<Rightarrow> int option" where
  "read_offset tz s =
     (if s = [] then Some tz
      else if s = ''Z'' then Some 0
      else do {
        (sg, s1) \<leftarrow> (case s of
                       c # r \<Rightarrow> if c = CHR ''+'' then Some (1, r)
                                else if c = CHR ''-'' then Some (- 1, r) else None
                     | [] \<Rightarrow> None);
        (h, s2) \<leftarrow> read_digits 2 s1;
        s3 \<leftarrow> expect CHR '':'' s2;
        (mi, s4) \<leftarrow> read_digits 2 s3;
        if s4 = [] \<and> h \<le> 23 \<and> mi \<le> 59 then Some (sg * (h * 60 + mi)) else None
      })"

text \<open>
  \<^verbatim>\<open>Date.parse\<close> on the ECMAScript date-time string format with a four-digit year:
  a date alone is a UTC midnight, a date and time without an offset is a local time.
  What a browser makes of any other text is implementation-defined; here it is \<open>NaN\<close>.
\<close>

definition Date_parse :: "int \<Rightarrow> string \<Rightarrow> date" where
  "Date_parse tz s =
     do {
       (y, s1) \<leftarrow> read_digits 4 s;
       s2 \<leftarrow> expect CHR ''-'' s1;
       (m, s3) \<leftarrow> read_digits 2 s2;
       s4 \<leftarrow> expect CHR ''-'' s3;
       (d, s5) \<leftarrow> read_digits 2 s4;
       if 1 \<le> m \<and> m \<le> 12 \<and> 1 \<le> d \<and> d \<le> days_in_month y m then
         (if s5 = [] then TimeClip (MakeDate (days_from_civil y m d) 0)
          else do {
            s6 \<leftarrow> expect CHR ''T'' s5;
            (ms, s7) \<leftarrow> read_time s6;
            off \<leftarrow> read_offset tz s7;
            TimeClip (MakeDate (days_from_civil y m d) ms - off * 60000)
          })
       else None
     }"

text \<open>
  \<^verbatim>\<open>new Date(v)\<close> on a field: a string is parsed, \<^verbatim>\<open>null\<close> converts to the number 0
  and \<^verbatim>\<open>undefined\<close> to \<open>NaN\<close>.
\<close>

definition new_Date :: "int \<Rightarrow> raw_string \<Rightarrow> date" where
  "new_Date tz v = (case v of Undefined \<Rightarrow> None | Null \<Rightarrow> Some 0 | Str s \<Rightarrow> Date_parse tz s)"

text \<open>\<open>a < b\<close> on two dates: a comparison with \<open>NaN\<close> is false.\<close>

definition date_less :: "date \<Rightarrow> date \<Rightarrow> bool" where
  "date_less a b = (case (a, b) of (Some x, Some y) \<Rightarrow> x < y | _ \<Rightarrow> False)"

section \<open>The payment terms resolver\<close>

text \<open>
  \<^verbatim>\<open>PAYMENT_DAYS[value]\<close>. The table is an object literal, so besides its own six keys
  a lookup finds the members every object inherits from \<^verbatim>\<open>Object.prototype\<close>; their
  values are functions and objects, not numbers.
\<close>

datatype lookup = Own int | Inherited | Missing

definition PAYMENT_DAYS_own :: "(string \<times> int) list" where
  "PAYMENT_DAYS_own =
     [(''due_on_receipt'', 0), (''net_7'', 7), (''net_15'', 15), (''net_30'', 30),
      (''net_60'', 60), (''custom'', 30)]"

definition Object_prototype_names :: "string list" where
  "Object_prototype_names =
     [''constructor'', ''toString'', ''toLocaleString'', ''valueOf'', ''hasOwnProperty'',
      ''isPrototypeOf'', ''propertyIsEnumerable'', ''__proto__'', ''__defineGetter__'',
      ''__defineSetter__'', ''__lookupGetter__'', ''__lookupSetter__'']"

definition PAYMENT_DAYS :: "string \<Rightarrow> lookup" where
  "PAYMENT_DAYS v =
     (case map_of PAYMENT_DAYS_own v of
        Some n \<Rightarrow> Own n
      | None \<Rightarrow> if v \<in> set Object_prototype_names then Inherited else Missing)"

text \<open>
  \<^verbatim>\<open>nextIssue.getDate() + (PAYMENT_DAYS[value] ?? 30)\<close>: an inherited member is not
  nullish, and a number plus a function is a string that \<^verbatim>\<open>setDate\<close> reads as \<open>NaN\<close>.
\<close>

definition due_day :: "int option \<Rightarrow> lookup \<Rightarrow> int option" where
  "due_day day l =
     (case l of
        Own n \<Rightarrow> map_option (\<lambda>d. d + n) day
      | Missing \<Rightarrow> map_option (\<lambda>d. d + 30) day
      | Inherited \<Rightarrow> None)"

definition handleTermsChange :: "int \<Rightarrow> invoice_form \<Rightarrow> string \<Rightarrow> js_error + invoice_form" where
  "handleTermsChange tz form v =
     (if issue_date form = [] then Inr (form\<lparr>payment_terms := v\<rparr>)
      else
        let nextIssue = Date_parse tz (issue_date form @ ''T00:00:00'');
            due = setDate tz nextIssue (due_day (getDate tz nextIssue) (PAYMENT_DAYS v))
        in if v = ''custom'' then Inr (form\<lparr>payment_terms := v, due_date := due_date form\<rparr>)
           else (case toISOString due of
                   Inl e \<Rightarrow> Inl e
                 | Inr s \<Rightarrow> Inr (form\<lparr>payment_terms := v, due_date := take 10 s\<rparr>)))"

definition EMPTY_ITEM :: item where
  "EMPTY_ITEM =
     \<lparr> item_id = None, description = Str [], quantity = Number 1, unit_price = Number 0 \<rparr>"

text \<open>\<^verbatim>\<open>getDefaultForm\<close>, with the current time \<open>now\<close> that \<^verbatim>\<open>new Date()\<close> reads.\<close>

definition getDefaultForm :: "int \<Rightarrow> int \<Rightarrow> js_error + invoice_form" where
  "getDefaultForm tz now =
     (let today = Some now;
          issueDate = take 10 (iso_string now);
          due = setDate tz today (due_day (getDate tz today) (PAYMENT_DAYS ''net_30''))
      in case toISOString due of
           Inl e \<Rightarrow> Inl e
         | Inr s \<Rightarrow>
             Inr \<lparr> issue_date = issueDate, due_date = take 10 s, payment_terms = ''net_30'',
                   tax_rate = Number 0, discount_percent = Number 0, form_description = [],
                   form_notes = [], project_id = [], items = [EMPTY_ITEM], client_id = [] \<rparr>)"

section \<open>Invoices and the overdue flag\<close>

text \<open>A line item as the API returns it, with its identifier.\<close>

record persisted_item =
  p_id :: nat
  p_description :: string
  p_quantity :: rat
  p_unit_price :: rat

text \<open>An invoice as the API returns it: the fields the page reads.\<close>

record invoice =
  inv_id :: nat
  inv_issue_date :: raw_string
  inv_due_date :: raw_string
  inv_payment_terms :: raw_string
  inv_tax_rate :: "rat option"
  inv_discount_percent :: "rat option"
  inv_description :: raw_string
  inv_notes :: raw_string
  inv_project_id :: "nat option"
  inv_items :: "persisted_item list option"
  inv_client_id :: nat
  inv_status :: string
  inv_amount_due :: "rat option"

text \<open>
  The flag \<^verbatim>\<open>isOverdue\<close> of a table row in \<^verbatim>\<open>Invoices.jsx\<close>, read as a condition
  (the expression itself may be \<^verbatim>\<open>null\<close>, which is falsy).
\<close>

definition isOverdue :: "int \<Rightarrow> int \<Rightarrow> invoice \<Rightarrow> bool" where
  "isOverdue tz now invoice =
     (let dueDate = (if truthy_str (inv_due_date invoice)
                     then Some (new_Date tz (inv_due_date invoice)) else None)
      in case dueDate of
           None \<Rightarrow> False
         | Some d \<Rightarrow> date_less d (Some now)
                     \<and> inv_status invoice \<noteq> ''paid'' \<and> inv_status invoice \<noteq> ''cancelled'')"

text \<open>The flag \<^verbatim>\<open>isOverdue\<close> of a table row in \<^verbatim>\<open>src/unnamed/part_001\<close>.\<close>

definition isOverdue_part_001 :: "int \<Rightarrow> int \<Rightarrow> invoice \<Rightarrow> bool" where
  "isOverdue_part_001 tz now invoice =
     (date_less (new_Date tz (inv_due_date invoice)) (Some now)
      \<and> inv_status invoice \<noteq> ''paid'')"

text \<open>\<^verbatim>\<open>hasBalance\<close>: \<^verbatim>\<open>(invoice.amount_due || 0) > 0\<close>.\<close>

definition hasBalance :: "invoice \<Rightarrow> bool" where
  "hasBalance invoice = ((case inv_amount_due invoice of None \<Rightarrow> 0 | Some a \<Rightarrow> a) > 0)"

section \<open>Editing the form\<close>

text \<open>\<^verbatim>\<open>n.toString()\<close> for a natural number.\<close>

fun show_nat :: "nat \<Rightarrow> string" where
  "show_nat n =
     (if n < 10 then [digit_char (int n)]
      else show_nat (n div 10) @ [digit_char (int (n mod 10))])"

declare show_nat.simps [simp del]

text \<open>\<^verbatim>\<open>v?.split('T')[0] || ''\<close>\<close>

definition date_part :: "raw_string \<Rightarrow> string" where
  "date_part v = (case v of Str s \<Rightarrow> takeWhile (\<lambda>c. c \<noteq> CHR ''T'') s | _ \<Rightarrow> [])"

text \<open>\<^verbatim>\<open>v || dflt\<close> on a string field.\<close>

definition str_or :: "raw_string \<Rightarrow> string \<Rightarrow> string" where
  "str_or v dflt = (case v of Str s \<Rightarrow> if s = [] then dflt else s | _ \<Rightarrow> dflt)"

text \<open>\<^verbatim>\<open>v || 0\<close> on a numeric field of an API record.\<close>

definition num_or_0 :: "rat option \<Rightarrow> rat" where
  "num_or_0 v = (case v of None \<Rightarrow> 0 | Some r \<Rightarrow> if r = 0 then 0 else r)"

definition item_of_persisted :: "persisted_item \<Rightarrow> item" where
  "item_of_persisted p =
     \<lparr> item_id = Some (p_id p), description = Str (p_description p),
       quantity = Number (p_quantity p), unit_price = Number (p_unit_price p) \<rparr>"

text \<open>The form that \<^verbatim>\<open>handleEdit\<close> loads from an invoice.\<close>

definition handleEdit_form :: "invoice \<Rightarrow> invoice_form" where
  "handleEdit_form invoice =
     \<lparr> issue_date = date_part (inv_issue_date invoice),
       due_date = date_part (inv_due_date invoice),
       payment_terms = str_or (inv_payment_terms invoice) ''net_30'',
       tax_rate = Number (num_or_0 (inv_tax_rate invoice)),
       discount_percent = Number (num_or_0 (inv_discount_percent invoice)),
       form_description = str_or (inv_description invoice) [],
       form_notes = str_or (inv_notes invoice) [],
       project_id = (case inv_project_id invoice of
                       None \<Rightarrow> []
                     | Some n \<Rightarrow> if n = 0 then [] else show_nat n),
       items = (case inv_items invoice of
                  None \<Rightarrow> [EMPTY_ITEM]
                | Some xs \<Rightarrow> if length xs > 0 then map item_of_persisted xs else [EMPTY_ITEM]),
       client_id = show_nat (inv_client_id invoice) \<rparr>"

text \<open>The button Add Item.\<close>

definition add_item :: "invoice_form \<Rightarrow> invoice_form" where
  "add_item form = form\<lparr>items := items form @ [EMPTY_ITEM]\<rparr>"

text \<open>
  The three inputs of row \<open>index\<close>. A row exists for each index below the length of the
  list, and only these handlers exist.
\<close>

definition set_item_description :: "nat \<Rightarrow> string \<Rightarrow> invoice_form \<Rightarrow> invoice_form" where
  "set_item_description index v form =
     form\<lparr>items := (items form)[index := (items form ! index)\<lparr>description := Str v\<rparr>]\<rparr>"

definition set_item_quantity :: "nat \<Rightarrow> string \<Rightarrow> invoice_form \<Rightarrow> invoice_form" where
  "set_item_quantity index v form =
     form\<lparr>items := (items form)[index := (items form ! index)\<lparr>quantity := Text v\<rparr>]\<rparr>"

definition set_item_unit_price :: "nat \<Rightarrow> string \<Rightarrow> invoice_form \<Rightarrow> invoice_form" where
  "set_item_unit_price index v form =
     form\<lparr>items := (items form)[index := (items form ! index)\<lparr>unit_price := Text v\<rparr>]\<rparr>"

text \<open>The remove button of row \<open>index\<close>.\<close>

definition remove_item :: "nat \<Rightarrow> invoice_form \<Rightarrow> invoice_form" where
  "remove_item index form =
     (let nextItems = map snd (filter (\<lambda>(itemIndex, _). itemIndex \<noteq> index)
                                      (enumerate 0 (items form)))
      in form\<lparr>items := (if length nextItems \<noteq> 0 then nextItems else [EMPTY_ITEM])\<rparr>)"

text \<open>
  The forms the dialog can hold: every \<^verbatim>\<open>setForm\<close> of the page, from the initial
  state on. \<open>tz\<close> is the time zone of the browser.
\<close>

inductive reachable_form :: "int \<Rightarrow> invoice_form \<Rightarrow> bool" for tz :: int where
  r_initial: "getDefaultForm tz now = Inr f \<Longrightarrow> reachable_form tz f"
| r_edit: "reachable_form tz (handleEdit_form invoice)"
| r_terms: "reachable_form tz f \<Longrightarrow> handleTermsChange tz f v = Inr f' \<Longrightarrow> reachable_form tz f'"
| r_client: "reachable_form tz f \<Longrightarrow> reachable_form tz (f\<lparr>client_id := v\<rparr>)"
| r_project: "reachable_form tz f \<Longrightarrow> reachable_form tz (f\<lparr>project_id := v\<rparr>)"
| r_issue: "reachable_form tz f \<Longrightarrow> reachable_form tz (f\<lparr>issue_date := v\<rparr>)"
| r_due: "reachable_form tz f \<Longrightarrow> reachable_form tz (f\<lparr>due_date := v\<rparr>)"
| r_tax: "reachable_form tz f \<Longrightarrow> reachable_form tz (f\<lparr>tax_rate := Text v\<rparr>)"
| r_discount: "reachable_form tz f \<Longrightarrow> reachable_form tz (f\<lparr>discount_percent := Text v\<rparr>)"
| r_description: "reachable_form tz f \<Longrightarrow> reachable_form tz (f\<lparr>form_description := v\<rparr>)"
| r_notes: "reachable_form tz f \<Longrightarrow> reachable_form tz (f\<lparr>form_notes := v\<rparr>)"
| r_add: "reachable_form tz f \<Longrightarrow> reachable_form tz (add_item f)"
| r_item_description: "reachable_form tz f \<Longrightarrow> i < length (items f)
     \<Longrightarrow> reachable_form tz (set_item_description i v f)"
| r_item_quantity: "reachable_form tz f \<Longrightarrow> i < length (items f)
     \<Longrightarrow> reachable_form tz (set_item_quantity i v f)"
| r_item_unit_price: "reachable_form tz f \<Longrightarrow> i < length (items f)
     \<Longrightarrow> reachable_form tz (set_item_unit_price i v f)"
| r_remove: "reachable_form tz f \<Longrightarrow> i < length (items f)
     \<Longrightarrow> reachable_form tz (remove_item i f)"

section \<open>Saving: the API calls\<close>

text \<open>
  The server decides, from the requests sent so far, whether the next one succeeds.
  The world outside the page is the list of requests sent, each with its outcome.
\<close>

type_synonym server = "api_call list \<Rightarrow> api_call \<Rightarrow> bool"

type_synonym world = "(api_call \<times> bool) list"

text \<open>An awaited request: sent, and resolved or rejected.\<close>

definition request :: "server \<Rightarrow> api_call \<Rightarrow> world \<Rightarrow> (js_error + unit) \<times> world" where
  "request srv c w =
     (let ok = srv (map fst w) c
      in (if ok then Inr () else Inl (ApiError c), w @ [(c, ok)]))"

text \<open>\<^verbatim>\<open>item.id\<close> read as a condition: a missing id and the id 0 are falsy.\<close>

definition truthy_id :: "nat option \<Rightarrow> nat option" where
  "truthy_id i = (case i of None \<Rightarrow> None | Some n \<Rightarrow> if n = 0 then None else Some n)"

definition body_of :: "norm_item \<Rightarrow> item_payload" where
  "body_of it =
     \<lparr> ip_description = n_description it, ip_quantity = n_quantity it,
       ip_unit_price = n_unit_price it \<rparr>"

text \<open>The request of the first loop of \<^verbatim>\<open>syncInvoiceItems\<close> for one item.\<close>

definition item_call :: "nat \<Rightarrow> norm_item \<Rightarrow> api_call" where
  "item_call iid it =
     (case truthy_id (n_id it) of
        Some i \<Rightarrow> Put_item iid i (body_of it)
      | None \<Rightarrow> Post_item iid (body_of it))"

text \<open>The two loops: each request is awaited, and a rejected one ends the function.\<close>

fun put_post_loop ::
  "server \<Rightarrow> nat \<Rightarrow> norm_item list \<Rightarrow> world \<Rightarrow> (js_error + unit) \<times> world" where
  "put_post_loop srv iid [] w = (Inr (), w)"
| "put_post_loop srv iid (it # its) w =
     (case request srv (item_call iid it) w of
        (Inl e, w') \<Rightarrow> (Inl e, w')
      | (Inr _, w') \<Rightarrow> put_post_loop srv iid its w')"

fun delete_loop ::
  "server \<Rightarrow> nat \<Rightarrow> persisted_item list \<Rightarrow> world \<Rightarrow> (js_error + unit) \<times> world" where
  "delete_loop srv iid [] w = (Inr (), w)"
| "delete_loop srv iid (it # its) w =
     (case request srv (Delete_item iid (p_id it)) w of
        (Inl e, w') \<Rightarrow> (Inl e, w')
      | (Inr _, w') \<Rightarrow> delete_loop srv iid its w')"

definition syncInvoiceItems ::
  "server \<Rightarrow> invoice \<Rightarrow> norm_item list \<Rightarrow> world \<Rightarrow> (js_error + unit) \<times> world" where
  "syncInvoiceItems srv invoice its w =
     (let existingItems = (case inv_items invoice of None \<Rightarrow> [] | Some xs \<Rightarrow> xs);
          desiredIds = List.map_filter (\<lambda>it. truthy_id (n_id it)) its;
          itemsToDelete = filter (\<lambda>it. p_id it \<notin> set desiredIds) existingItems
      in case put_post_loop srv (inv_id invoice) its w of
           (Inl e, w') \<Rightarrow> (Inl e, w')
         | (Inr _, w') \<Rightarrow> delete_loop srv (inv_id invoice) itemsToDelete w')"

section \<open>Saving: the handlers\<close>

record payment_form =
  amount :: string
  payment_date :: string
  payment_notes :: string

text \<open>
  The state of the page that the save and payment handlers read and write, and the
  console. The list of invoices, which \<^verbatim>\<open>fetchInvoices\<close> refreshes, is not part of it.
\<close>

record page =
  form :: invoice_form
  editingInvoice :: "invoice option"
  showModal :: bool
  paymentInvoice :: "invoice option"
  paymentForm :: payment_form
  showPaymentModal :: bool
  console :: "(string \<times> js_error) list"

definition toIsoDate :: "int \<Rightarrow> string \<Rightarrow> js_error + string option" where
  "toIsoDate tz dateValue =
     (if dateValue = [] then Inr None
      else case toISOString (Date_parse tz (dateValue @ ''T00:00:00'')) of
             Inl e \<Rightarrow> Inl e
           | Inr s \<Rightarrow> Inr (Some s))"

definition hex_val :: "char \<Rightarrow> nat option" where
  "hex_val = map_of
     [(CHR ''0'', 0), (CHR ''1'', 1), (CHR ''2'', 2), (CHR ''3'', 3), (CHR ''4'', 4),
      (CHR ''5'', 5), (CHR ''6'', 6), (CHR ''7'', 7), (CHR ''8'', 8), (CHR ''9'', 9),
      (CHR ''a'', 10), (CHR ''b'', 11), (CHR ''c'', 12), (CHR ''d'', 13), (CHR ''e'', 14),
      (CHR ''f'', 15), (CHR ''A'', 10), (CHR ''B'', 11), (CHR ''C'', 12), (CHR ''D'', 13),
      (CHR ''E'', 14), (CHR ''F'', 15)]"

definition hex_digits_val :: "string \<Rightarrow> nat" where
  "hex_digits_val ds = foldl (\<lambda>a c. 16 * a + (case hex_val c of Some d \<Rightarrow> d | None \<Rightarrow> 0)) 0 ds"

text \<open>
  \<^verbatim>\<open>parseInt(s)\<close> without a radix: white space, a sign, then hexadecimal digits after
  \<^verbatim>\<open>0x\<close> and decimal digits otherwise; \<open>None\<close> is \<open>NaN\<close>.
\<close>

definition parseInt :: "string \<Rightarrow> int option" where
  "parseInt s =
     (let (sg, u) = read_sign (dropWhile is_space s)
      in if take 2 u = ''0x'' \<or> take 2 u = ''0X'' then
           (let ds = takeWhile (\<lambda>c. hex_val c \<noteq> None) (drop 2 u)
            in if ds = [] then None else Some (sg * int (hex_digits_val ds)))
         else
           (let ds = takeWhile is_digit u
            in if ds = [] then None else Some (sg * int (digits_val ds))))"

text \<open>The object \<^verbatim>\<open>data\<close>; a date that does not parse raises \<^verbatim>\<open>RangeError\<close>.\<close>

definition submit_data :: "int \<Rightarrow> invoice_form \<Rightarrow> js_error + invoice_data" where
  "submit_data tz f =
     (case toIsoDate tz (issue_date f) of
        Inl e \<Rightarrow> Inl e
      | Inr idate \<Rightarrow>
          (case toIsoDate tz (due_date f) of
             Inl e \<Rightarrow> Inl e
           | Inr ddate \<Rightarrow>
               Inr \<lparr> d_issue_date = idate,
                     d_due_date = ddate,
                     d_payment_terms = (if payment_terms f = [] then ''net_30'' else payment_terms f),
                     d_tax_rate = parseFloat_or_0 (tax_rate f),
                     d_discount_percent = parseFloat_or_0 (discount_percent f),
                     d_description = form_description f,
                     d_notes = form_notes f,
                     d_client_id = parseInt (client_id f),
                     d_project_id = (if project_id f = [] then None
                                     else Some (parseInt (project_id f))),
                     d_items = normalizeItems (items f) \<rparr>))"

definition updatePayload :: "invoice_data \<Rightarrow> update_payload" where
  "updatePayload d =
     \<lparr> u_issue_date = d_issue_date d, u_due_date = d_due_date d,
       u_payment_terms = d_payment_terms d, u_tax_rate = d_tax_rate d,
       u_discount_percent = d_discount_percent d, u_description = d_description d,
       u_notes = d_notes d \<rparr>"

text \<open>
  \<^verbatim>\<open>fetchInvoices\<close>: the request is sent; a failure is caught inside the function and
  written to the console.
\<close>

definition fetchInvoices :: "server \<Rightarrow> page \<times> world \<Rightarrow> page \<times> world" where
  "fetchInvoices srv pw =
     (case pw of (pg, w) \<Rightarrow>
        (case request srv Get_invoices w of
           (Inl e, w') \<Rightarrow> (pg\<lparr>console := console pg @ [(''Failed to fetch invoices:'', e)]\<rparr>, w')
         | (Inr _, w') \<Rightarrow> (pg, w')))"

text \<open>
  The body of the \<^verbatim>\<open>try\<close> block of \<^verbatim>\<open>handleSubmit\<close>: the error thrown inside it, if
  any, with the page and the world at that moment.
\<close>

definition handleSubmit_try ::
  "server \<Rightarrow> int \<Rightarrow> int \<Rightarrow> page \<times> world \<Rightarrow> (js_error + unit) \<times> page \<times> world" where
  "handleSubmit_try srv tz now pw =
     (case pw of (pg, w) \<Rightarrow>
        (case submit_data tz (form pg) of
           Inl e \<Rightarrow> (Inl e, pg, w)
         | Inr d \<Rightarrow>
             (case (case editingInvoice pg of
                      Some invoice \<Rightarrow>
                        (case request srv (Put_invoice (inv_id invoice) (updatePayload d)) w of
                           (Inl e, w1) \<Rightarrow> (Inl e, w1)
                         | (Inr _, w1) \<Rightarrow> syncInvoiceItems srv invoice (d_items d) w1)
                    | None \<Rightarrow> request srv (Post_invoice d) w) of
                (Inl e, w2) \<Rightarrow> (Inl e, pg, w2)
              | (Inr _, w2) \<Rightarrow>
                  (let pg1 = pg\<lparr>showModal := False, editingInvoice := None\<rparr>
                   in case getDefaultForm tz now of
                        Inl e \<Rightarrow> (Inl e, pg1, w2)
                      | Inr f \<Rightarrow>
                          (case fetchInvoices srv (pg1\<lparr>form := f\<rparr>, w2) of
                             (pg2, w3) \<Rightarrow> (Inr (), pg2, w3))))))"

text \<open>
  \<^verbatim>\<open>handleSubmit\<close>: what its caller receives (\<open>Inl\<close> would be a rejected promise),
  the page and the world after it. The \<^verbatim>\<open>catch\<close> clause writes to the console.
\<close>

definition handleSubmit ::
  "server \<Rightarrow> int \<Rightarrow> int \<Rightarrow> page \<times> world \<Rightarrow> (js_error + unit) \<times> page \<times> world" where
  "handleSubmit srv tz now pw =
     (case handleSubmit_try srv tz now pw of
        (Inl err, pg, w) \<Rightarrow>
          (Inr (), pg\<lparr>console := console pg @ [(''Failed to save invoice:'', err)]\<rparr>, w)
      | (Inr _, pg, w) \<Rightarrow> (Inr (), pg, w))"

definition payment_body :: "int \<Rightarrow> payment_form \<Rightarrow> js_error + payment_payload" where
  "payment_body tz pf =
     (case toIsoDate tz (payment_date pf) of
        Inl e \<Rightarrow> Inl e
      | Inr pdate \<Rightarrow>
          Inr \<lparr> pp_amount = parseFloat_or_0 (Text (amount pf)),
                pp_payment_date = pdate,
                pp_notes = (if payment_notes pf = [] then None else Some (payment_notes pf)) \<rparr>)"

definition submitPayment_try ::
  "server \<Rightarrow> int \<Rightarrow> invoice \<Rightarrow> page \<times> world \<Rightarrow> (js_error + unit) \<times> page \<times> world" where
  "submitPayment_try srv tz invoice pw =
     (case pw of (pg, w) \<Rightarrow>
        (case payment_body tz (paymentForm pg) of
           Inl e \<Rightarrow> (Inl e, pg, w)
         | Inr b \<Rightarrow>
             (case request srv (Post_payment (inv_id invoice) b) w of
                (Inl e, w1) \<Rightarrow> (Inl e, pg, w1)
              | (Inr _, w1) \<Rightarrow>
                  (case fetchInvoices srv
                          (pg\<lparr>showPaymentModal := False, paymentInvoice := None,
                              paymentForm := \<lparr>amount = [], payment_date = [],
                                              payment_notes = []\<rparr>\<rparr>, w1) of
                     (pg2, w2) \<Rightarrow> (Inr (), pg2, w2)))))"

definition submitPayment ::
  "server \<Rightarrow> int \<Rightarrow> page \<times> world \<Rightarrow> (js_error + unit) \<times> page \<times> world" where
  "submitPayment srv tz pw =
     (case pw of (pg, w) \<Rightarrow>
        (case paymentInvoice pg of
           None \<Rightarrow> (Inr (), pg, w)
         | Some invoice \<Rightarrow>
             (case submitPayment_try srv tz invoice (pg, w) of
                (Inl err, pg', w') \<Rightarrow>
                  (Inr (), pg'\<lparr>console := console pg' @ [(''Failed to record payment:'', err)]\<rparr>, w')
              | (Inr _, pg', w') \<Rightarrow> (Inr (), pg', w'))))"

section \<open>The specification's wording, and the examples\<close>



text \<open>A form around a list of items and the two rates; the other fields are blank.\<close>

definition form_with :: "item list \<Rightarrow> raw_number \<Rightarrow> raw_number \<Rightarrow> invoice_form" where
  "form_with its dp tr =
     \<lparr> issue_date = [], due_date = [], payment_terms = ''net_30'', tax_rate = tr,
       discount_percent = dp, form_description = [], form_notes = [], project_id = [],
       items = its, client_id = [] \<rparr>"

definition design_item :: "raw_number \<Rightarrow> raw_number \<Rightarrow> item" where
  "design_item q p =
     \<lparr> item_id = None, description = Str ''Design'', quantity = q, unit_price = p \<rparr>"


text \<open>
  The operations of an item synchronization as the specification words them: for each
  item of the edit buffer, in order, an update when it carries an id and a create when it
  does not; then a delete for each persisted item whose id is not among the ids of the
  edit buffer.
\<close>

definition sync_plan :: "nat \<Rightarrow> persisted_item list \<Rightarrow> norm_item list \<Rightarrow> api_call list" where
  "sync_plan iid persisted buffer =
     map (\<lambda>it. case n_id it of
                  Some i \<Rightarrow>
                    Put_item iid i
                      \<lparr> ip_description = n_description it, ip_quantity = n_quantity it,
                        ip_unit_price = n_unit_price it \<rparr>
                | None \<Rightarrow>
                    Post_item iid
                      \<lparr> ip_description = n_description it, ip_quantity = n_quantity it,
                        ip_unit_price = n_unit_price it \<rparr>) buffer
     @ map (\<lambda>p. Delete_item iid (p_id p))
         (filter (\<lambda>p. Some (p_id p) \<notin> set (map n_id buffer)) persisted)"

text \<open>A server that accepts every request.\<close>

definition accepting :: server where
  "accepting = (\<lambda>sent c. True)"

text \<open>An invoice with the persisted items \<open>ps\<close>; the other fields do not matter here.\<close>

definition invoice_with :: "nat \<Rightarrow> persisted_item list \<Rightarrow> string \<Rightarrow> raw_string \<Rightarrow> invoice" where
  "invoice_with n ps st dd =
     \<lparr> inv_id = n, inv_issue_date = Str ''2024-01-01T00:00:00.000Z'', inv_due_date = dd,
       inv_payment_terms = Str ''net_30'', inv_tax_rate = Some 0,
       inv_discount_percent = Some 0, inv_description = Null, inv_notes = Null,
       inv_project_id = None, inv_items = Some ps, inv_client_id = 1, inv_status = st,
       inv_amount_due = None \<rparr>"

definition persisted_A :: persisted_item where
  "persisted_A = \<lparr> p_id = 1, p_description = ''A'', p_quantity = 1, p_unit_price = 10 \<rparr>"

definition persisted_B :: persisted_item where
  "persisted_B = \<lparr> p_id = 2, p_description = ''B'', p_quantity = 2, p_unit_price = 20 \<rparr>"

definition buffer_A' :: norm_item where
  "buffer_A' = \<lparr> n_id = Some 1, n_description = ''A changed'', n_quantity = 3, n_unit_price = 10 \<rparr>"

definition buffer_C :: norm_item where
  "buffer_C = \<lparr> n_id = None, n_description = ''C'', n_quantity = 1, n_unit_price = 5 \<rparr>"

text \<open>A form with the two dates and the terms given; one blank item, no rates.\<close>

definition form_dated :: "string \<Rightarrow> string \<Rightarrow> string \<Rightarrow> invoice_form" where
  "form_dated issue due terms =
     \<lparr> issue_date = issue, due_date = due, payment_terms = terms, tax_rate = Number 0,
       discount_percent = Number 0, form_description = [], form_notes = [], project_id = [],
       items = [EMPTY_ITEM], client_id = [] \<rparr>"

text \<open>2024-02-01T00:00:00Z as a time value.\<close>

definition feb_1st_2024 :: int where
  "feb_1st_2024 = 1706745600000"

text \<open>A server that rejects the request number \<open>n\<close> (counted from 0) and accepts the others.\<close>

definition rejecting :: "nat \<Rightarrow> server" where
  "rejecting n = (\<lambda>sent c. length sent \<noteq> n)"

definition item_C :: item where
  "item_C = \<lparr> item_id = None, description = Str ''C'', quantity = Text ''1'', unit_price = Text ''5'' \<rparr>"

definition item_A' :: item where
  "item_A' = \<lparr> item_id = Some 1, description = Str ''A changed'', quantity = Text ''3'',
               unit_price = Number 10 \<rparr>"

text \<open>
  The page while invoice 7, with the persisted items \<open>ps\<close>, is edited and the edit buffer
  holds \<open>its\<close>.
\<close>

definition editing_page :: "persisted_item list \<Rightarrow> item list \<Rightarrow> page" where
  "editing_page ps its =
     \<lparr> form = (form_dated ''2024-01-01'' ''2024-01-31'' ''net_30'')\<lparr>items := its, client_id := ''1''\<rparr>,
       editingInvoice = Some (invoice_with 7 ps ''draft'' (Str ''2024-01-31T00:00:00.000Z'')),
       showModal = True, paymentInvoice = None,
       paymentForm = \<lparr>amount = [], payment_date = [], payment_notes = []\<rparr>,
       showPaymentModal = False, console = [] \<rparr>"

text \<open>The page while a payment of 25 on invoice 7 is entered.\<close>

definition paying_page :: page where
  "paying_page =
     \<lparr> form = form_dated ''2024-01-01'' ''2024-01-31'' ''net_30'',
       editingInvoice = None, showModal = False,
       paymentInvoice = Some (invoice_with 7 [] ''sent'' (Str ''2024-01-31T00:00:00.000Z'')),
       paymentForm = \<lparr>amount = ''25'', payment_date = [], payment_notes = []\<rparr>,
       showPaymentModal = True, console = [] \<rparr>"

text \<open>
  What a run of awaited requests leaves behind: from the world \<open>w\<close>, either all of them
  succeeded, or all before the rejected one did and the rejected one is the last sent
  and is the error thrown.
\<close>

definition awaited :: "world \<Rightarrow> js_error + unit \<Rightarrow> world \<Rightarrow> bool" where
  "awaited w r w' =
     (\<exists>cs. (r = Inr () \<and> w' = w @ map (\<lambda>c. (c, True)) cs)
         \<or> (\<exists>c. r = Inl (ApiError c) \<and> c \<noteq> Get_invoices
                \<and> w' = w @ map (\<lambda>c. (c, True)) cs @ [(c, False)]))"

section \<open>The totals calculator\<close>

lemma foldl_plus_sum_list:
  "foldl (\<lambda>sum x. sum + f x) a xs = (a::rat) + sum_list (map f xs)"
  by (induction xs arbitrary: a) simp_all















lemma design_totals:
  "calculateFormTotals (form_with [design_item (Number 10) (Number 50)] (Number 10) (Number 8))
     = \<lparr> subtotal = 500, discount = 50, tax = 36, total = 486 \<rparr>"
  by (simp add: calculateFormTotals_def form_with_def design_item_def normalizeItems_def
      normalize_item_def trimmed_description_def trim_def is_space_def parseFloat_or_0_def
      parseFloat_def)





lemma subtotal_nonneg:
  assumes "\<forall>it \<in> set (normalizeItems its). 0 \<le> n_quantity it \<and> 0 \<le> n_unit_price it"
  shows "0 \<le> foldl (\<lambda>sum it. sum + n_quantity it * n_unit_price it) 0 (normalizeItems its)"
proof -
  have "0 \<le> sum_list (map (\<lambda>it. n_quantity it * n_unit_price it) (normalizeItems its))"
    using assms by (intro sum_list_nonneg) auto
  then show ?thesis by (simp add: foldl_plus_sum_list)
qed

lemma total_factored:
  "total (calculateFormTotals f)
     = subtotal (calculateFormTotals f)
       * ((100 - parseFloat_or_0 (discount_percent f)) * (100 + parseFloat_or_0 (tax_rate f)))
       / 10000"
  by (simp add: calculateFormTotals_def Let_def field_simps)

lemma sign_of_scaled:
  "0 \<le> (s::rat) \<Longrightarrow> (0 \<le> s * k / 10000) = (s = 0 \<or> 0 \<le> k)"
  by (cases "s = 0") (auto simp: zero_le_mult_iff zero_le_divide_iff)

text \<open>
  C6, as stated, fails: the rates are not bounded. One item, 1 at 100, with a discount of
  200 percent and no tax has non-negative normalized quantity and price and the total
  -100.
\<close>

theorem C6_counterexample:
  "normalizeItems (items (form_with [design_item (Number 1) (Number 100)] (Number 200) (Number 0)))
     = [\<lparr> n_id = None, n_description = ''Design'', n_quantity = 1, n_unit_price = 100 \<rparr>]
   \<and> total (calculateFormTotals
        (form_with [design_item (Number 1) (Number 100)] (Number 200) (Number 0))) = - 100"
  by (simp add: calculateFormTotals_def form_with_def design_item_def normalizeItems_def
      normalize_item_def trimmed_description_def trim_def is_space_def parseFloat_or_0_def
      parseFloat_def)

text \<open>
  C6, amended. When all normalized quantities and unit prices are non-negative, total
  is subtotal - discount + tax exactly, for every discount_percent and tax_rate, and
  total is non-negative exactly when subtotal is 0 or (100 - discount_percent) times
  (100 + tax_rate) is non-negative, the rates as coerced; so it is whenever the discount
  is at most 100 percent and the tax rate at least -100 percent.
\<close>

theorem C6_total_sign:
  assumes "\<forall>it \<in> set (normalizeItems (items f)). 0 \<le> n_quantity it \<and> 0 \<le> n_unit_price it"
  shows "total (calculateFormTotals f)
           = subtotal (calculateFormTotals f) - discount (calculateFormTotals f)
             + tax (calculateFormTotals f)
         \<and> (0 \<le> total (calculateFormTotals f)
              \<longleftrightarrow> subtotal (calculateFormTotals f) = 0
                  \<or> 0 \<le> (100 - parseFloat_or_0 (discount_percent f))
                         * (100 + parseFloat_or_0 (tax_rate f)))"
proof -
  have sub: "0 \<le> subtotal (calculateFormTotals f)"
    using subtotal_nonneg [OF assms] by (simp add: calculateFormTotals_def Let_def)
  have eq: "total (calculateFormTotals f)
           = subtotal (calculateFormTotals f) - discount (calculateFormTotals f)
             + tax (calculateFormTotals f)"
    by (simp add: calculateFormTotals_def Let_def)
  have "0 \<le> total (calculateFormTotals f)
              \<longleftrightarrow> subtotal (calculateFormTotals f) = 0
                  \<or> 0 \<le> (100 - parseFloat_or_0 (discount_percent f))
                         * (100 + parseFloat_or_0 (tax_rate f))"
    unfolding total_factored using sub by (rule sign_of_scaled)
  with eq show ?thesis by blast
qed

theorem C6_witness:
  "0 \<le> total (calculateFormTotals
          (form_with [design_item (Number 10) (Number 50)] (Number 10) (Number 8)))
   \<and> total (calculateFormTotals
          (form_with [design_item (Number 10) (Number 50)] (Number 10) (Number 8)))
     = 500 - 50 + 36"
proof -
  let ?f = "form_with [design_item (Number 10) (Number 50)] (Number 10) (Number 8)"
  have n: "normalizeItems (items ?f)
         = [\<lparr> n_id = None, n_description = ''Design'', n_quantity = 10, n_unit_price = 50 \<rparr>]"
    by (simp add: form_with_def design_item_def normalizeItems_def
      normalize_item_def trimmed_description_def trim_def is_space_def parseFloat_or_0_def
      parseFloat_def)
  have h: "\<forall>it \<in> set (normalizeItems (items ?f)). 0 \<le> n_quantity it \<and> 0 \<le> n_unit_price it"
    unfolding n by simp
  have r: "parseFloat_or_0 (discount_percent ?f) = 10" "parseFloat_or_0 (tax_rate ?f) = 8"
    by (simp_all add: form_with_def parseFloat_or_0_def parseFloat_def)
  have t: "subtotal (calculateFormTotals ?f) = 500" "discount (calculateFormTotals ?f) = 50"
    "tax (calculateFormTotals ?f) = 36"
    by (simp_all add: design_totals)
  show ?thesis
    using C6_total_sign [OF h] unfolding r t by simp
qed

section \<open>Item synchronization\<close>

lemma request_accepting: "request accepting c w = (Inr (), w @ [(c, True)])"
  by (simp add: request_def accepting_def)

lemma put_post_loop_accepting:
  "put_post_loop accepting iid its w = (Inr (), w @ map (\<lambda>it. (item_call iid it, True)) its)"
  by (induction its arbitrary: w) (simp_all add: request_accepting)

lemma delete_loop_accepting:
  "delete_loop accepting iid ps w = (Inr (), w @ map (\<lambda>p. (Delete_item iid (p_id p), True)) ps)"
  by (induction ps arbitrary: w) (simp_all add: request_accepting)

lemma request_sent: "request srv c w = (r, w') \<Longrightarrow> map fst w' = map fst w @ [c]"
  by (auto simp: request_def Let_def)

lemma put_post_loop_sent:
  "put_post_loop srv iid its w = (r, w')
   \<Longrightarrow> \<exists>n \<le> length its. map fst w' = map fst w @ take n (map (item_call iid) its)
          \<and> (r = Inr () \<longrightarrow> n = length its)"
proof (induction its arbitrary: w)
  case Nil
  then show ?case by simp
next
  case (Cons it its)
  obtain r1 w1 where rq: "request srv (item_call iid it) w = (r1, w1)"
    by (cases "request srv (item_call iid it) w")
  have s1: "map fst w1 = map fst w @ [item_call iid it]"
    using request_sent [OF rq] .
  show ?case
  proof (cases r1)
    case (Inl e)
    with Cons.prems rq have "w' = w1" "r = Inl e" by simp_all
    then have "map fst w' = map fst w @ take 1 (map (item_call iid) (it # its))" "r \<noteq> Inr ()"
      using s1 by simp_all
    then show ?thesis by (intro exI [of _ 1]) simp
  next
    case (Inr u)
    with Cons.prems rq have "put_post_loop srv iid its w1 = (r, w')" by simp
    from Cons.IH [OF this] obtain n where n: "n \<le> length its"
      "map fst w' = map fst w1 @ take n (map (item_call iid) its)"
      "r = Inr () \<longrightarrow> n = length its" by blast
    then show ?thesis using s1 by (intro exI [of _ "Suc n"]) simp
  qed
qed

lemma delete_loop_sent:
  "delete_loop srv iid ps w = (r, w')
   \<Longrightarrow> \<exists>n \<le> length ps. map fst w' = map fst w @ take n (map (\<lambda>p. Delete_item iid (p_id p)) ps)"
proof (induction ps arbitrary: w)
  case Nil
  then show ?case by simp
next
  case (Cons p ps)
  obtain r1 w1 where rq: "request srv (Delete_item iid (p_id p)) w = (r1, w1)"
    by (cases "request srv (Delete_item iid (p_id p)) w")
  have s1: "map fst w1 = map fst w @ [Delete_item iid (p_id p)]"
    using request_sent [OF rq] .
  show ?case
  proof (cases r1)
    case (Inl e)
    with Cons.prems rq have "w' = w1" by simp
    then have "map fst w' = map fst w @ take 1 (map (\<lambda>p. Delete_item iid (p_id p)) (p # ps))"
      using s1 by simp
    then show ?thesis by (intro exI [of _ 1]) simp
  next
    case (Inr u)
    with Cons.prems rq have "delete_loop srv iid ps w1 = (r, w')" by simp
    from Cons.IH [OF this] obtain n where n: "n \<le> length ps"
      "map fst w' = map fst w1 @ take n (map (\<lambda>p. Delete_item iid (p_id p)) ps)" by blast
    then show ?thesis using s1 by (intro exI [of _ "Suc n"]) simp
  qed
qed

lemma truthy_id_nonzero: "i \<noteq> Some 0 \<Longrightarrow> truthy_id i = i"
  by (auto simp: truthy_id_def split: option.splits)

lemma desired_ids:
  "Some 0 \<notin> set (map n_id its)
   \<Longrightarrow> (k \<in> set (List.map_filter (\<lambda>it. truthy_id (n_id it)) its)) = (Some k \<in> set (map n_id its))"
  by (induction its) (auto simp: List.map_filter_simps truthy_id_nonzero split: option.splits)

lemma item_calls_plan:
  "Some 0 \<notin> set (map n_id its)
   \<Longrightarrow> map (item_call iid) its
       = map (\<lambda>it. case n_id it of
                  Some i \<Rightarrow>
                    Put_item iid i
                      \<lparr> ip_description = n_description it, ip_quantity = n_quantity it,
                        ip_unit_price = n_unit_price it \<rparr>
                | None \<Rightarrow>
                    Post_item iid
                      \<lparr> ip_description = n_description it, ip_quantity = n_quantity it,
                        ip_unit_price = n_unit_price it \<rparr>) its"
  by (induction its) (auto simp: item_call_def truthy_id_nonzero body_of_def split: option.split)

lemma sync_sent:
  assumes "Some 0 \<notin> set (map n_id its)"
  shows "\<exists>n. map fst (snd (syncInvoiceItems srv invoice its w))
           = map fst w @ take n (sync_plan (inv_id invoice)
                   (case inv_items invoice of None \<Rightarrow> [] | Some ps \<Rightarrow> ps) its)"
proof -
  let ?iid = "inv_id invoice"
  let ?ps = "case inv_items invoice of None \<Rightarrow> [] | Some ps \<Rightarrow> ps"
  let ?del = "filter (\<lambda>p. Some (p_id p) \<notin> set (map n_id its)) ?ps"
  let ?c1 = "map (item_call ?iid) its"
  let ?c2 = "map (\<lambda>p. Delete_item ?iid (p_id p)) ?del"
  have plan: "sync_plan ?iid ?ps its = ?c1 @ ?c2"
    by (simp add: sync_plan_def item_calls_plan [OF assms])
  have del: "filter (\<lambda>it. p_id it \<notin> set (List.map_filter (\<lambda>it. truthy_id (n_id it)) its)) ?ps = ?del"
    by (simp add: desired_ids [OF assms])
  obtain r1 w1 where l1: "put_post_loop srv ?iid its w = (r1, w1)"
    by (cases "put_post_loop srv ?iid its w")
  from put_post_loop_sent [OF l1] obtain n where n: "n \<le> length its"
    "map fst w1 = map fst w @ take n ?c1" "r1 = Inr () \<longrightarrow> n = length its" by blast
  show ?thesis
  proof (cases r1)
    case (Inl e)
    then have "snd (syncInvoiceItems srv invoice its w) = w1"
      using l1 by (simp add: syncInvoiceItems_def Let_def)
    then show ?thesis using n plan by (intro exI [of _ n]) simp
  next
    case (Inr u)
    obtain r2 w2 where l2: "delete_loop srv ?iid ?del w1 = (r2, w2)"
      by (cases "delete_loop srv ?iid ?del w1")
    from delete_loop_sent [OF l2] obtain m where m:
      "map fst w2 = map fst w1 @ take m ?c2" by blast
    have "snd (syncInvoiceItems srv invoice its w) = w2"
      using l1 l2 Inr del by (simp add: syncInvoiceItems_def Let_def)
    moreover have "n = length its" using n Inr by simp
    ultimately show ?thesis using n m plan
      by (intro exI [of _ "length its + m"]) simp
  qed
qed

text \<open>
  C2, as stated, fails for the id 0: the code reads \<^verbatim>\<open>item.id\<close> as a condition, and 0
  is falsy. With the persisted item A (id 0) and the edit buffer A changed (id 0), the
  synchronization sends a create and a delete of 0, not an update of 0.
\<close>

theorem C2_counterexample:
  "syncInvoiceItems accepting (invoice_with 7 [persisted_A \<lparr>p_id := 0\<rparr>] ''sent'' Null)
      [buffer_A' \<lparr>n_id := Some 0\<rparr>] []
   = (Inr (), [(Post_item 7
                  \<lparr>ip_description = ''A changed'', ip_quantity = 3, ip_unit_price = 10\<rparr>, True),
               (Delete_item 7 0, True)])"
  by code_simp

text \<open>
  C2, amended. When no item of the edit buffer carries the id 0, item synchronization
  sends, for each item of the edit buffer in order, one update with the item's new
  description, quantity and unit price when the item carries an id and one create with
  them when it does not, and after them one delete for each persisted item whose id is
  not among the ids of the edit buffer. When every request succeeds these are exactly
  the requests sent; whatever the server answers, the requests sent are an initial part
  of this sequence.
\<close>

theorem C2_sync_operations:
  assumes "Some 0 \<notin> set (map n_id its)"
  shows "syncInvoiceItems accepting invoice its w
           = (Inr (), w @ map (\<lambda>c. (c, True))
                (sync_plan (inv_id invoice)
                   (case inv_items invoice of None \<Rightarrow> [] | Some ps \<Rightarrow> ps) its))
         \<and> (\<exists>n. map fst (snd (syncInvoiceItems srv invoice its w))
                = map fst w @ take n (sync_plan (inv_id invoice)
                   (case inv_items invoice of None \<Rightarrow> [] | Some ps \<Rightarrow> ps) its))"
proof -
  have "syncInvoiceItems accepting invoice its w
           = (Inr (), w @ map (\<lambda>c. (c, True))
                (sync_plan (inv_id invoice)
                   (case inv_items invoice of None \<Rightarrow> [] | Some ps \<Rightarrow> ps) its))"
    using assms
    by (simp add: syncInvoiceItems_def sync_plan_def Let_def put_post_loop_accepting
        delete_loop_accepting desired_ids item_calls_plan [symmetric] comp_def)
  then show ?thesis
    using sync_sent [OF assms] by blast
qed

text \<open>
  The example of the specification: persisted A (id 1) and B (id 2), edit buffer A
  changed (id 1) and C (no id): update 1 with the changed values, create C, delete 2.
\<close>

theorem C2_sync_witness:
  "syncInvoiceItems accepting (invoice_with 7 [persisted_A, persisted_B] ''sent'' Null)
      [buffer_A', buffer_C] []
   = (Inr (), [(Put_item 7 1
                  \<lparr>ip_description = ''A changed'', ip_quantity = 3, ip_unit_price = 10\<rparr>, True),
               (Post_item 7
                  \<lparr>ip_description = ''C'', ip_quantity = 1, ip_unit_price = 5\<rparr>, True),
               (Delete_item 7 2, True)])"
proof -
  have h: "Some 0 \<notin> set (map n_id [buffer_A', buffer_C])"
    by (simp add: buffer_A'_def buffer_C_def)
  show ?thesis
    using C2_sync_operations
      [OF h, of "invoice_with 7 [persisted_A, persisted_B] ''sent'' Null" "[]"]
    by (simp add: sync_plan_def invoice_with_def persisted_A_def persisted_B_def
        buffer_A'_def buffer_C_def)
qed

section \<open>The overdue flag\<close>

lemmas parse_defs = Date_parse_def read_digits_def expect_def read_time_def read_offset_def
  is_digit_def digit_val_def digits_val_def days_in_month_def is_leap_def TimeClip_def
  MakeDate_def days_from_civil_def msPerDay_def

lemma jan_31st: "Date_parse tz ''2024-01-31T00:00:00.000Z'' = Some 1706659200000"
  by (simp add: parse_defs)

lemma isOverdue_iff:
  "isOverdue tz now invoice \<longleftrightarrow>
     (\<exists>s t. inv_due_date invoice = Str s \<and> s \<noteq> [] \<and> Date_parse tz s = Some t \<and> t < now)
     \<and> inv_status invoice \<noteq> ''paid'' \<and> inv_status invoice \<noteq> ''cancelled''"
  by (cases "inv_due_date invoice")
     (auto simp: isOverdue_def truthy_str_def new_Date_def date_less_def Let_def
       split: option.splits)

text \<open>
  C3. The overdue flag of a row of the Invoices page is true exactly when due_date is set
  (a non-empty string), it is a time earlier than the current time, and the status is
  neither paid nor cancelled. With the due date 2024-01-31 and the current time
  2024-02-01, status sent gives true and status paid gives false.
\<close>

theorem C3_overdue_flag:
  "(isOverdue tz now invoice \<longleftrightarrow>
     (\<exists>s t. inv_due_date invoice = Str s \<and> s \<noteq> [] \<and> Date_parse tz s = Some t \<and> t < now)
     \<and> inv_status invoice \<notin> {''paid'', ''cancelled''})
   \<and> isOverdue tz feb_1st_2024 (invoice_with 7 [] ''sent'' (Str ''2024-01-31T00:00:00.000Z''))
   \<and> \<not> isOverdue tz feb_1st_2024 (invoice_with 7 [] ''paid'' (Str ''2024-01-31T00:00:00.000Z''))"
proof -
  have "isOverdue tz feb_1st_2024 (invoice_with 7 [] ''sent'' (Str ''2024-01-31T00:00:00.000Z''))"
    by (simp add: isOverdue_iff invoice_with_def jan_31st feb_1st_2024_def)
  moreover have
    "\<not> isOverdue tz feb_1st_2024 (invoice_with 7 [] ''paid'' (Str ''2024-01-31T00:00:00.000Z''))"
    by (simp add: isOverdue_iff invoice_with_def)
  ultimately show ?thesis
    using isOverdue_iff [of tz now invoice] by simp
qed

theorem C3_overdue_witness:
  "isOverdue 60 feb_1st_2024 (invoice_with 7 [] ''draft'' (Str ''2024-01-31T00:00:00.000Z''))
   \<and> \<not> isOverdue 60 feb_1st_2024
         (invoice_with 7 [] ''cancelled'' (Str ''2024-01-31T00:00:00.000Z''))
   \<and> \<not> isOverdue 60 feb_1st_2024 (invoice_with 7 [] ''sent'' Null)"
  using
    C3_overdue_flag
      [of 60 feb_1st_2024 "invoice_with 7 [] ''draft'' (Str ''2024-01-31T00:00:00.000Z'')"]
    C3_overdue_flag
      [of 60 feb_1st_2024 "invoice_with 7 [] ''cancelled'' (Str ''2024-01-31T00:00:00.000Z'')"]
    C3_overdue_flag [of 60 feb_1st_2024 "invoice_with 7 [] ''sent'' Null"]
  by (simp add: invoice_with_def jan_31st feb_1st_2024_def)

text \<open>
  Where the two pages agree: on every invoice that is not cancelled and whose due_date is
  not \<^verbatim>\<open>null\<close>.
\<close>

lemma part_001_agrees:
  "inv_status invoice \<noteq> ''cancelled'' \<Longrightarrow> inv_due_date invoice \<noteq> Null
   \<Longrightarrow> isOverdue_part_001 tz now invoice = isOverdue tz now invoice"
  by (cases "inv_due_date invoice")
     (auto simp: isOverdue_part_001_def isOverdue_def truthy_str_def new_Date_def
       date_less_def Let_def parse_defs split: option.splits)

text \<open>
  C4. The two derivations of the overdue flag do not agree. For a cancelled invoice due
  on 2024-01-31, read on 2024-02-01, the page of \<^verbatim>\<open>part_001\<close> flags it and
  \<^verbatim>\<open>Invoices.jsx\<close> does not; the same for an invoice whose due_date is \<^verbatim>\<open>null\<close>,
  which \<^verbatim>\<open>part_001\<close> reads as the epoch.
\<close>

theorem C4_overdue_divergence:
  "isOverdue_part_001 0 feb_1st_2024
      (invoice_with 7 [] ''cancelled'' (Str ''2024-01-31T00:00:00.000Z''))
   \<and> \<not> isOverdue 0 feb_1st_2024
      (invoice_with 7 [] ''cancelled'' (Str ''2024-01-31T00:00:00.000Z''))
   \<and> isOverdue_part_001 0 feb_1st_2024 (invoice_with 7 [] ''sent'' Null)
   \<and> \<not> isOverdue 0 feb_1st_2024 (invoice_with 7 [] ''sent'' Null)"
  by (simp add: isOverdue_part_001_def isOverdue_iff invoice_with_def jan_31st
      feb_1st_2024_def new_Date_def date_less_def)

section \<open>Calendar arithmetic\<close>













section \<open>The payment terms resolver: what it computes\<close>

lemma handleTermsChange_frame:
  "handleTermsChange tz f v = Inr f'
   \<Longrightarrow> f' = f\<lparr>payment_terms := v, due_date := due_date f'\<rparr>"
  by (auto simp: handleTermsChange_def Let_def split: if_splits sum.splits)



text \<open>In UTC the examples of the specification come out as it says.\<close>

lemma due_date_in_utc:
  "handleTermsChange 0 (form_dated ''2024-01-01'' [] ''due_on_receipt'') ''net_30''
     = Inr (form_dated ''2024-01-01'' ''2024-01-31'' ''net_30'')
   \<and> handleTermsChange 0 (form_dated ''2024-01-01'' [] ''net_30'') ''due_on_receipt''
     = Inr (form_dated ''2024-01-01'' ''2024-01-01'' ''due_on_receipt'')"
  by code_simp

lemma due_date_in_utc_minus_5:
  "handleTermsChange (- 300) (form_dated ''2024-01-01'' [] ''due_on_receipt'') ''net_30''
     = Inr (form_dated ''2024-01-01'' ''2024-01-31'' ''net_30'')"
  by code_simp

text \<open>
  C5. In a browser whose local time is ahead of UTC the resolver is a day short: the
  issue date is read as a local midnight and the due date is written as a UTC date. One
  hour ahead of UTC, issue_date 2024-01-01 with net_30 gives 2024-01-30, not 2024-01-31,
  and due_on_receipt gives 2023-12-31, not the issue date.
\<close>

theorem C5_due_date_ahead_of_utc:
  "handleTermsChange 60 (form_dated ''2024-01-01'' [] ''due_on_receipt'') ''net_30''
     = Inr (form_dated ''2024-01-01'' ''2024-01-30'' ''net_30'')
   \<and> handleTermsChange 60 (form_dated ''2024-01-01'' [] ''net_30'') ''due_on_receipt''
     = Inr (form_dated ''2024-01-01'' ''2023-12-31'' ''due_on_receipt'')"
  by code_simp





text \<open>
  C7. The resolver changes at most payment_terms and due_date. It leaves due_date as it
  is when the new terms are custom, and when no issue_date is set, for every terms
  value.
\<close>

theorem C7_terms_frame:
  "handleTermsChange tz f ''custom'' = Inr (f\<lparr>payment_terms := ''custom''\<rparr>)
   \<and> (issue_date f = [] \<longrightarrow> handleTermsChange tz f v = Inr (f\<lparr>payment_terms := v\<rparr>))
   \<and> (\<forall>f'. handleTermsChange tz f v = Inr f'
          \<longrightarrow> (\<exists>d. f' = f\<lparr>payment_terms := v, due_date := d\<rparr>))"
proof -
  have "handleTermsChange tz f ''custom'' = Inr (f\<lparr>payment_terms := ''custom''\<rparr>)"
    by (simp add: handleTermsChange_def Let_def)
  moreover have
    "issue_date f = [] \<longrightarrow> handleTermsChange tz f v = Inr (f\<lparr>payment_terms := v\<rparr>)"
    by (simp add: handleTermsChange_def)
  ultimately show ?thesis
    using handleTermsChange_frame by blast
qed

theorem C7_terms_witness:
  "handleTermsChange 60 (form_dated ''2024-01-01'' ''2024-01-31'' ''net_30'') ''custom''
     = Inr (form_dated ''2024-01-01'' ''2024-01-31'' ''custom'')
   \<and> handleTermsChange 60 (form_dated [] ''2024-01-31'' ''net_30'') ''net_7''
     = Inr (form_dated [] ''2024-01-31'' ''net_7'')"
  using C7_terms_frame [of 60 "form_dated ''2024-01-01'' ''2024-01-31'' ''net_30''"]
    C7_terms_frame [of 60 "form_dated [] ''2024-01-31'' ''net_30''" "''net_7''"]
  by (simp add: form_dated_def)

section \<open>The edit buffer\<close>

lemma getDefaultForm_items: "getDefaultForm tz now = Inr f \<Longrightarrow> items f = [EMPTY_ITEM]"
  by (auto simp: getDefaultForm_def Let_def split: sum.splits)

lemma handleEdit_form_items: "items (handleEdit_form invoice) \<noteq> []"
  by (simp add: handleEdit_form_def split: option.split)

lemma handleEdit_form_blank:
  "inv_items invoice = None \<or> inv_items invoice = Some []
   \<Longrightarrow> items (handleEdit_form invoice) = [EMPTY_ITEM]"
  by (auto simp: handleEdit_form_def)

lemma remove_item_items: "items (remove_item i f) \<noteq> []"
  by (simp add: remove_item_def Let_def)

lemma remove_last_item: "items f = [x] \<Longrightarrow> items (remove_item 0 f) = [EMPTY_ITEM]"
  by (simp add: remove_item_def Let_def)

lemma handleTermsChange_items: "handleTermsChange tz f v = Inr f' \<Longrightarrow> items f' = items f"
  by (auto simp: handleTermsChange_def Let_def split: if_splits sum.splits)

lemma reachable_items: "reachable_form tz f \<Longrightarrow> items f \<noteq> []"
proof (induction rule: reachable_form.induct)
  case (r_initial now f)
  then show ?case by (simp add: getDefaultForm_items)
next
  case (r_edit invoice)
  show ?case by (rule handleEdit_form_items)
next
  case (r_terms f v f')
  then show ?case by (simp add: handleTermsChange_items)
next
  case (r_remove f i)
  show ?case by (rule remove_item_items)
qed (simp_all add: add_item_def set_item_description_def set_item_quantity_def
       set_item_unit_price_def)

text \<open>
  C9. The edit buffer is never empty: every form the dialog can hold, from the initial
  one through every \<^verbatim>\<open>setForm\<close>, has at least one item. The initial form has the one
  blank item, an invoice without items loads as the one blank item, and removing the
  only item leaves the one blank item.
\<close>

theorem C9_items_never_empty:
  "(reachable_form tz f \<longrightarrow> items f \<noteq> [])
   \<and> (getDefaultForm tz now = Inr f0 \<longrightarrow> items f0 = [EMPTY_ITEM])
   \<and> (inv_items invoice = None \<or> inv_items invoice = Some []
        \<longrightarrow> items (handleEdit_form invoice) = [EMPTY_ITEM])
   \<and> (items g = [x] \<longrightarrow> items (remove_item 0 g) = [EMPTY_ITEM])"
  using reachable_items getDefaultForm_items handleEdit_form_blank remove_last_item
  by blast

lemma default_form_feb_1st:
  "getDefaultForm 0 feb_1st_2024 = Inr (form_dated ''2024-02-01'' ''2024-03-02'' ''net_30'')"
  by code_simp

theorem C9_items_witness:
  "items (remove_item 0 (handleEdit_form (invoice_with 7 [persisted_A] ''sent'' Null)))
     = [EMPTY_ITEM]
   \<and> items (remove_item 0 (handleEdit_form (invoice_with 7 [persisted_A] ''sent'' Null))) \<noteq> []
   \<and> items (handleEdit_form (invoice_with 7 [] ''sent'' Null)) = [EMPTY_ITEM]
   \<and> items (form_dated ''2024-02-01'' ''2024-03-02'' ''net_30'') = [EMPTY_ITEM]"
proof -
  let ?e = "handleEdit_form (invoice_with 7 [persisted_A] ''sent'' Null)"
  have i: "items ?e = [item_of_persisted persisted_A]"
    by (simp add: handleEdit_form_def invoice_with_def)
  have r: "reachable_form 0 (remove_item 0 ?e)"
    by (rule reachable_form.r_remove [OF reachable_form.r_edit]) (simp add: i)
  have n: "inv_items (invoice_with 7 [] ''sent'' Null) = None
           \<or> inv_items (invoice_with 7 [] ''sent'' Null) = Some []"
    by (simp add: invoice_with_def)
  show ?thesis
    using C9_items_never_empty [of 0 "remove_item 0 ?e" feb_1st_2024
        "form_dated ''2024-02-01'' ''2024-03-02'' ''net_30''"
        "invoice_with 7 [] ''sent'' Null" ?e "item_of_persisted persisted_A"]
      r i n default_form_feb_1st
    by blast
qed

section \<open>Saving and failing requests\<close>

lemma awaited_refl: "awaited w (Inr ()) w"
  unfolding awaited_def by (intro exI [of _ "[]"]) simp

lemma awaited_request: "c \<noteq> Get_invoices \<Longrightarrow> request srv c w = (r, w') \<Longrightarrow> awaited w r w'"
  unfolding awaited_def by (intro exI [of _ "if r = Inr () then [c] else []"]) (auto simp: request_def Let_def split: if_splits)

lemma awaited_trans: "awaited w (Inr ()) w1 \<Longrightarrow> awaited w1 r w2 \<Longrightarrow> awaited w r w2"
proof -
  assume a: "awaited w (Inr ()) w1" and b: "awaited w1 r w2"
  from a obtain cs where cs: "w1 = w @ map (\<lambda>c. (c, True)) cs"
    unfolding awaited_def by auto
  from b obtain ds where ds: "(r = Inr () \<and> w2 = w1 @ map (\<lambda>c. (c, True)) ds)
         \<or> (\<exists>c. r = Inl (ApiError c) \<and> c \<noteq> Get_invoices
                \<and> w2 = w1 @ map (\<lambda>c. (c, True)) ds @ [(c, False)])"
    unfolding awaited_def by auto
  show ?thesis
    unfolding awaited_def using cs ds by (intro exI [of _ "cs @ ds"]) auto
qed

lemma item_call_not_get: "item_call iid it \<noteq> Get_invoices"
  by (simp add: item_call_def split: option.split)

lemma put_post_loop_awaited: "put_post_loop srv iid its w = (r, w') \<Longrightarrow> awaited w r w'"
proof (induction its arbitrary: w)
  case Nil
  then have "r = Inr ()" "w' = w" by simp_all
  then show ?case by (simp add: awaited_refl)
next
  case (Cons it its)
  obtain r1 w1 where rq: "request srv (item_call iid it) w = (r1, w1)"
    by (cases "request srv (item_call iid it) w")
  have a1: "awaited w r1 w1"
    using awaited_request [OF item_call_not_get rq] .
  show ?case
  proof (cases r1)
    case (Inl e)
    with Cons.prems rq have "w' = w1" "r = r1" by simp_all
    then show ?thesis using a1 by simp
  next
    case (Inr u)
    with Cons.prems rq have "put_post_loop srv iid its w1 = (r, w')" by simp
    from Cons.IH [OF this] a1 Inr show ?thesis by (auto intro: awaited_trans)
  qed
qed

lemma delete_loop_awaited: "delete_loop srv iid ps w = (r, w') \<Longrightarrow> awaited w r w'"
proof (induction ps arbitrary: w)
  case Nil
  then have "r = Inr ()" "w' = w" by simp_all
  then show ?case by (simp add: awaited_refl)
next
  case (Cons p ps)
  obtain r1 w1 where rq: "request srv (Delete_item iid (p_id p)) w = (r1, w1)"
    by (cases "request srv (Delete_item iid (p_id p)) w")
  have a1: "awaited w r1 w1"
    using awaited_request [OF _ rq] by simp
  show ?case
  proof (cases r1)
    case (Inl e)
    with Cons.prems rq have "w' = w1" "r = r1" by simp_all
    then show ?thesis using a1 by simp
  next
    case (Inr u)
    with Cons.prems rq have "delete_loop srv iid ps w1 = (r, w')" by simp
    from Cons.IH [OF this] a1 Inr show ?thesis by (auto intro: awaited_trans)
  qed
qed

lemma syncInvoiceItems_awaited:
  assumes "syncInvoiceItems srv invoice its w = (r, w')"
  shows "awaited w r w'"
proof -
  obtain r1 w1 where l1: "put_post_loop srv (inv_id invoice) its w = (r1, w1)"
    by (cases "put_post_loop srv (inv_id invoice) its w")
  have a1: "awaited w r1 w1" using put_post_loop_awaited [OF l1] .
  show ?thesis
  proof (cases r1)
    case (Inl e)
    with assms l1 have "r = r1" "w' = w1" by (simp_all add: syncInvoiceItems_def Let_def)
    then show ?thesis using a1 by simp
  next
    case (Inr u)
    with assms l1 obtain ps where "delete_loop srv (inv_id invoice) ps w1 = (r, w')"
      by (simp add: syncInvoiceItems_def Let_def)
    from delete_loop_awaited [OF this] a1 Inr show ?thesis by (auto intro: awaited_trans)
  qed
qed

text \<open>The requests of a save: the invoice itself, then its items.\<close>

lemma save_requests_awaited:
  assumes "(case ei of
              Some invoice \<Rightarrow>
                (case request srv (Put_invoice (inv_id invoice) (updatePayload d)) w of
                   (Inl e, w1) \<Rightarrow> (Inl e, w1)
                 | (Inr _, w1) \<Rightarrow> syncInvoiceItems srv invoice (d_items d) w1)
            | None \<Rightarrow> request srv (Post_invoice d) w) = (r, w')"
  shows "awaited w r w'"
proof (cases ei)
  case None
  with assms show ?thesis by (auto intro: awaited_request)
next
  case (Some invoice)
  obtain r1 w1 where rq: "request srv (Put_invoice (inv_id invoice) (updatePayload d)) w = (r1, w1)"
    by (cases "request srv (Put_invoice (inv_id invoice) (updatePayload d)) w")
  have a1: "awaited w r1 w1" using awaited_request [OF _ rq] by simp
  show ?thesis
  proof (cases r1)
    case (Inl e)
    with assms Some rq have "r = r1" "w' = w1" by simp_all
    then show ?thesis using a1 by simp
  next
    case (Inr u)
    with assms Some rq have "syncInvoiceItems srv invoice (d_items d) w1 = (r, w')" by simp
    from syncInvoiceItems_awaited [OF this] a1 Inr show ?thesis by (auto intro: awaited_trans)
  qed
qed


lemma fetchInvoices_world:
  "fetchInvoices srv (pg, w) = (pg', w') \<Longrightarrow> \<exists>b. w' = w @ [(Get_invoices, b)]"
  by (auto simp: fetchInvoices_def request_def Let_def split: if_splits)

lemma handleSubmit_try_cases:
  assumes "handleSubmit_try srv tz now (pg, w) = (r, pg', w')"
  shows "(\<exists>e cs. r = Inl e \<and> w' = w @ map (\<lambda>c. (c, True)) cs)
       \<or> (\<exists>c cs. r = Inl (ApiError c) \<and> c \<noteq> Get_invoices \<and> pg' = pg
              \<and> w' = w @ map (\<lambda>c. (c, True)) cs @ [(c, False)])
       \<or> (\<exists>cs b. r = Inr () \<and> w' = w @ map (\<lambda>c. (c, True)) cs @ [(Get_invoices, b)])"
proof (cases "submit_data tz (form pg)")
  case (Inl e)
  with assms have "r = Inl e" "w' = w" by (simp_all add: handleSubmit_try_def)
  then have "r = Inl e \<and> w' = w @ map (\<lambda>c. (c, True)) []" by simp
  then show ?thesis by blast
next
  case (Inr d)
  let ?save = "case editingInvoice pg of
              Some invoice \<Rightarrow>
                (case request srv (Put_invoice (inv_id invoice) (updatePayload d)) w of
                   (Inl e, w1) \<Rightarrow> (Inl e, w1)
                 | (Inr _, w1) \<Rightarrow> syncInvoiceItems srv invoice (d_items d) w1)
            | None \<Rightarrow> request srv (Post_invoice d) w"
  obtain r2 w2 where sv: "?save = (r2, w2)" by (cases ?save)
  have aw: "awaited w r2 w2" using save_requests_awaited [OF sv] .
  show ?thesis
  proof (cases r2)
    case (Inl e)
    with assms Inr sv have res: "r = Inl e" "pg' = pg" "w' = w2"
      by (simp_all add: handleSubmit_try_def)
    from aw Inl obtain c cs where "e = ApiError c" "c \<noteq> Get_invoices"
      "w2 = w @ map (\<lambda>c. (c, True)) cs @ [(c, False)]"
      unfolding awaited_def by auto
    with res show ?thesis by blast
  next
    case (Inr u)
    from aw Inr obtain cs where cs: "w2 = w @ map (\<lambda>c. (c, True)) cs"
      unfolding awaited_def by auto
    let ?pg1 = "pg\<lparr>showModal := False, editingInvoice := None\<rparr>"
    show ?thesis
    proof (cases "getDefaultForm tz now")
      case (Inl e)
      with assms \<open>submit_data tz (form pg) = Inr d\<close> sv \<open>r2 = Inr u\<close>
      have "r = Inl e" "w' = w2" by (simp_all add: handleSubmit_try_def Let_def)
      with cs show ?thesis by blast
    next
      case (Inr f)
      obtain pg3 w3 where ft: "fetchInvoices srv (?pg1\<lparr>form := f\<rparr>, w2) = (pg3, w3)"
        by (cases "fetchInvoices srv (?pg1\<lparr>form := f\<rparr>, w2)")
      with assms \<open>submit_data tz (form pg) = Inr d\<close> sv \<open>r2 = Inr u\<close> Inr
      have "r = Inr ()" "w' = w3" by (simp_all add: handleSubmit_try_def Let_def)
      moreover from fetchInvoices_world [OF ft] obtain b where "w3 = w2 @ [(Get_invoices, b)]" ..
      ultimately show ?thesis using cs by auto
    qed
  qed
qed

lemma handleSubmit_returns: "fst (handleSubmit srv tz now pw) = Inr ()"
  by (simp add: handleSubmit_def split: prod.split sum.split)

lemma submitPayment_returns: "fst (submitPayment srv tz pw) = Inr ()"
  by (simp add: submitPayment_def split: prod.split sum.split option.split)

lemma not_in_trues: "(c, False) \<notin> set (map (\<lambda>c. (c, True)) cs)"
  by auto

lemma handleSubmit_failure:
  assumes "(c, False) \<in> set (drop (length w) (snd (snd (handleSubmit srv tz now (pg, w)))))"
    and "c \<noteq> Get_invoices"
  shows "fst (snd (handleSubmit srv tz now (pg, w)))
           = pg\<lparr>console := console pg @ [(''Failed to save invoice:'', ApiError c)]\<rparr>
         \<and> (\<exists>cs. snd (snd (handleSubmit srv tz now (pg, w)))
                  = w @ map (\<lambda>c. (c, True)) cs @ [(c, False)])"
proof -
  obtain r pg' w' where t: "handleSubmit_try srv tz now (pg, w) = (r, pg', w')"
    by (cases "handleSubmit_try srv tz now (pg, w)")
  have w': "snd (snd (handleSubmit srv tz now (pg, w))) = w'"
    using t by (simp add: handleSubmit_def split: sum.split)
  from handleSubmit_try_cases [OF t] consider
    (range) e cs where "r = Inl e" "w' = w @ map (\<lambda>c. (c, True)) cs"
  | (api) c0 cs where "r = Inl (ApiError c0)" "c0 \<noteq> Get_invoices" "pg' = pg"
      "w' = w @ map (\<lambda>c. (c, True)) cs @ [(c0, False)]"
  | (fetched) cs b where "r = Inr ()" "w' = w @ map (\<lambda>c. (c, True)) cs @ [(Get_invoices, b)]"
    by blast
  then show ?thesis
  proof cases
    case range
    with assms w' show ?thesis by auto
  next
    case api
    with assms w' have "c = c0" by auto
    with api t w' show ?thesis by (auto simp: handleSubmit_def)
  next
    case fetched
    with assms w' show ?thesis by auto
  qed
qed

lemma submitPayment_failure:
  assumes "(c, False) \<in> set (drop (length w) (snd (snd (submitPayment srv tz (pg, w)))))"
    and "c \<noteq> Get_invoices"
  shows "fst (snd (submitPayment srv tz (pg, w)))
           = pg\<lparr>console := console pg @ [(''Failed to record payment:'', ApiError c)]\<rparr>
         \<and> snd (snd (submitPayment srv tz (pg, w))) = w @ [(c, False)]"
  using assms
  by (auto simp: submitPayment_def submitPayment_try_def fetchInvoices_def request_def Let_def
      split: option.splits sum.splits if_splits prod.splits)

text \<open>
  C8, as stated, fails. Two new items C and C are saved on invoice 7. When the server
  rejects the first create, and when it accepts the first and rejects the second,
  \<^verbatim>\<open>handleSubmit\<close> completes normally, and the page after it, console included, is the
  same in both runs: the caller receives no error and nothing tells which operations
  succeeded.
\<close>

theorem C8_counterexample:
  "fst (handleSubmit (rejecting 1) 0 feb_1st_2024 (editing_page [] [item_C, item_C], [])) = Inr ()
   \<and> fst (snd (handleSubmit (rejecting 1) 0 feb_1st_2024 (editing_page [] [item_C, item_C], [])))
     = fst (snd (handleSubmit (rejecting 2) 0 feb_1st_2024 (editing_page [] [item_C, item_C], [])))
   \<and> map snd (snd (snd (handleSubmit (rejecting 1) 0 feb_1st_2024
                          (editing_page [] [item_C, item_C], []))))
     = [True, False]
   \<and> map snd (snd (snd (handleSubmit (rejecting 2) 0 feb_1st_2024
                          (editing_page [] [item_C, item_C], []))))
     = [True, True, False]"
  by code_simp

text \<open>
  C8, amended. A failing create, update, delete or payment request during an invoice
  save, an item synchronization or the recording of a payment is caught by the handler:
  the rejected request is the last one sent (the requests before it succeeded and are
  not undone, those after it are never sent), the error, which names the rejected
  request, is written to the console, the page is otherwise left as it was, and the
  handler completes normally. The error is not passed to the caller and no report of the
  operations that succeeded is made.
\<close>

theorem C8_errors_are_caught:
  "fst (handleSubmit srv tz now (pg, w)) = Inr ()
   \<and> fst (submitPayment srv tz (pg, w)) = Inr ()
   \<and> ((c, False) \<in> set (drop (length w) (snd (snd (handleSubmit srv tz now (pg, w)))))
        \<and> c \<noteq> Get_invoices
      \<longrightarrow> fst (snd (handleSubmit srv tz now (pg, w)))
            = pg\<lparr>console := console pg @ [(''Failed to save invoice:'', ApiError c)]\<rparr>
          \<and> (\<exists>cs. snd (snd (handleSubmit srv tz now (pg, w)))
                   = w @ map (\<lambda>c. (c, True)) cs @ [(c, False)]))
   \<and> ((c, False) \<in> set (drop (length w) (snd (snd (submitPayment srv tz (pg, w)))))
        \<and> c \<noteq> Get_invoices
      \<longrightarrow> fst (snd (submitPayment srv tz (pg, w)))
            = pg\<lparr>console := console pg @ [(''Failed to record payment:'', ApiError c)]\<rparr>
          \<and> snd (snd (submitPayment srv tz (pg, w))) = w @ [(c, False)])"
  using handleSubmit_returns [of srv tz now "(pg, w)"] submitPayment_returns [of srv tz "(pg, w)"]
    handleSubmit_failure [of c w srv tz now pg] submitPayment_failure [of c w srv tz pg]
  by blast

theorem C8_errors_witness:
  "fst (handleSubmit (rejecting 2) 0 feb_1st_2024
          (editing_page [persisted_A, persisted_B] [item_A', item_C], [])) = Inr ()
   \<and> fst (snd (handleSubmit (rejecting 2) 0 feb_1st_2024
          (editing_page [persisted_A, persisted_B] [item_A', item_C], [])))
     = (editing_page [persisted_A, persisted_B] [item_A', item_C])
         \<lparr>console := [(''Failed to save invoice:'',
             ApiError (Post_item 7
               \<lparr>ip_description = ''C'', ip_quantity = 1, ip_unit_price = 5\<rparr>))]\<rparr>
   \<and> fst (snd (submitPayment (rejecting 0) 0 (paying_page, [])))
     = paying_page
         \<lparr>console := [(''Failed to record payment:'',
             ApiError (Post_payment 7
               \<lparr>pp_amount = 25, pp_payment_date = None, pp_notes = None\<rparr>))]\<rparr>"
proof -
  let ?c = "Post_item 7 \<lparr>ip_description = ''C'', ip_quantity = 1, ip_unit_price = 5\<rparr>"
  let ?p = "Post_payment 7 \<lparr>pp_amount = 25, pp_payment_date = None, pp_notes = None\<rparr>"
  let ?pg = "editing_page [persisted_A, persisted_B] [item_A', item_C]"
  have h1: "(?c, False) \<in> set (drop (length ([] :: world))
              (snd (snd (handleSubmit (rejecting 2) 0 feb_1st_2024 (?pg, [])))))"
    by code_simp
  have h2: "(?p, False) \<in> set (drop (length ([] :: world))
              (snd (snd (submitPayment (rejecting 0) 0 (paying_page, [])))))"
    by code_simp
  have c1: "console ?pg = []" by (simp add: editing_page_def)
  have c2: "console paying_page = []" by (simp add: paying_page_def)
  show ?thesis
    using C8_errors_are_caught [of "rejecting 2" 0 feb_1st_2024 ?pg "[]" ?c] h1
      C8_errors_are_caught [of "rejecting 0" 0 feb_1st_2024 paying_page "[]" ?p] h2
    by (simp add: c1 c2)
qed

end
